theory Spec2Isabelle
  imports
    Complex_Main
    "HOL-Library.Char_ord"
    "HOL-Library.List_Lexorder"
    "HOL-Library.Product_Lexorder"
    "HOL-Library.Multiset"
begin

section \<open>Data model of \<open>dashboard.py\<close>\<close>

text \<open>
  The script works on one pandas DataFrame. A cell is a string (object dtype), a number
  (numeric dtype, idealised as an exact rational: rounding of binary floats is not
  modelled), a timestamp (the result of \<open>pd.to_datetime\<close>) or the missing value
  (\<open>NaN\<close>/\<open>NaT\<close>). Strings are byte lists; column names are taken to be ASCII.
\<close>

datatype timestamp = Timestamp (year: nat) (month: nat) (day: nat)

datatype val = S string | N rat | D timestamp | NaN

text \<open>
  What \<open>pd.read_csv\<close> delivers: the header line and the records, cell by cell in
  header order. A record shorter than the header reads as \<open>NaN\<close> in the missing cells.
\<close>

record raw_frame =
  header :: "string list"
  records :: "val list list"

text \<open>
  The DataFrame once its columns carry their final labels: the labels in order, and
  every row as a function from label to cell. Label-based access \<open>df[c]\<close> of pandas is
  single-valued only when no label is repeated; a row built from a header with a
  repeated label keeps the first cell of that label.
\<close>

record frame =
  columns :: "string list"
  rows :: "(string \<Rightarrow> val) list"

datatype error = SchemaError string | KeyError string

text \<open>
  Group keys are sorted by pandas (\<open>groupby(sort=True)\<close>, \<open>sort_index\<close>): numbers by
  value, strings lexicographically by code point. The order on \<open>val\<close> puts numbers
  before strings before timestamps before \<open>NaN\<close>.
\<close>

fun val_key :: "val \<Rightarrow> nat \<times> rat \<times> string \<times> nat \<times> nat \<times> nat" where
  "val_key (N x) = (0, x, [], 0, 0, 0)"
| "val_key (S s) = (1, 0, s, 0, 0, 0)"
| "val_key (D t) = (2, 0, [], year t, month t, day t)"
| "val_key NaN = (3, 0, [], 0, 0, 0)"

lemma val_key_inj: "val_key a = val_key b \<longleftrightarrow> a = b"
  by (cases a; cases b) (auto simp: timestamp.expand)

instantiation val :: linorder
begin

definition less_eq_val :: "val \<Rightarrow> val \<Rightarrow> bool" where
  "less_eq_val a b \<longleftrightarrow> val_key a \<le> val_key b"

definition less_val :: "val \<Rightarrow> val \<Rightarrow> bool" where
  "less_val a b \<longleftrightarrow> val_key a < val_key b"

instance
proof
  fix x y z :: val
  show "(x < y) = (x \<le> y \<and> \<not> y \<le> x)"
    unfolding less_eq_val_def less_val_def by (rule less_le_not_le)
  show "x \<le> x"
    unfolding less_eq_val_def by simp
  show "x \<le> y \<Longrightarrow> y \<le> z \<Longrightarrow> x \<le> z"
    unfolding less_eq_val_def by (rule order_trans)
  show "x \<le> y \<Longrightarrow> y \<le> x \<Longrightarrow> x = y"
    unfolding less_eq_val_def using val_key_inj [of x y] by simp
  show "x \<le> y \<or> y \<le> x"
    unfolding less_eq_val_def by (rule linear)
qed

end

section \<open>Loading and cleaning (\<open>load_and_clean_data\<close>)\<close>

subsection \<open>Column names: \<open>c.lower().strip().replace(" ", "_")\<close>\<close>

definition lower_char :: "char \<Rightarrow> char" where
  "lower_char c =
     (case map_of (zip ''ABCDEFGHIJKLMNOPQRSTUVWXYZ'' ''abcdefghijklmnopqrstuvwxyz'') c of
        Some d \<Rightarrow> d
      | None \<Rightarrow> c)"

definition lower :: "string \<Rightarrow> string" where
  "lower s = map lower_char s"

text \<open>
  The ASCII characters that \<open>str.strip()\<close> removes: tab, line feed, vertical tab, form
  feed, carriage return, the four separators \<open>0x1C\<close> to \<open>0x1F\<close>, and the space.
\<close>

definition is_space :: "char \<Rightarrow> bool" where
  "is_space c \<longleftrightarrow>
     c \<in> set [CHR 0x09, CHR 0x0A, CHR 0x0B, CHR 0x0C, CHR 0x0D,
              CHR 0x1C, CHR 0x1D, CHR 0x1E, CHR 0x1F, CHR '' '']"

definition strip :: "string \<Rightarrow> string" where
  "strip s = rev (dropWhile is_space (rev (dropWhile is_space s)))"

definition replace_spaces :: "string \<Rightarrow> string" where
  "replace_spaces s = map (\<lambda>c. if c = CHR '' '' then CHR ''_'' else c) s"

definition canonical :: "string \<Rightarrow> string" where
  "canonical c = replace_spaces (strip (lower c))"

text \<open>\<open>df.columns = [...]\<close>: the labels are replaced, the cells stay where they are.\<close>

definition row_of :: "string list \<Rightarrow> val list \<Rightarrow> string \<Rightarrow> val" where
  "row_of labels cells c = (case map_of (zip labels cells) c of Some v \<Rightarrow> v | None \<Rightarrow> NaN)"

definition standardize_columns :: "raw_frame \<Rightarrow> frame" where
  "standardize_columns raw =
     (let labels = map canonical (header raw)
      in \<lparr>columns = labels, rows = map (row_of labels) (records raw)\<rparr>)"

subsection \<open>Column access and assignment\<close>

definition col :: "string \<Rightarrow> frame \<Rightarrow> val list" where
  "col c df = map (\<lambda>r. r c) (rows df)"

text \<open>
  \<open>df[c] = series\<close>: the column is overwritten when the label exists and appended
  otherwise; the series has one cell per row.
\<close>

definition assign :: "string \<Rightarrow> val list \<Rightarrow> frame \<Rightarrow> frame" where
  "assign c vs df =
     \<lparr>columns = (if c \<in> set (columns df) then columns df else columns df @ [c]),
      rows = map (\<lambda>(r, v). r(c := v)) (zip (rows df) vs)\<rparr>"

subsection \<open>Type coercion with \<open>errors="coerce"\<close>\<close>

text \<open>
  The parsers of pandas are parameters of the model. \<open>parse_date series v\<close> is the
  timestamp that \<open>pd.to_datetime\<close> reads from the cell \<open>v\<close> of the column \<open>series\<close> (the
  format is inferred from the column), \<open>parse_num v\<close> the number \<open>pd.to_numeric\<close> reads
  from \<open>v\<close>; \<open>None\<close> is a cell that does not parse. With \<open>errors="coerce"\<close> such a cell
  becomes \<open>NaT\<close>/\<open>NaN\<close>, and so does a date outside the range a timestamp can hold.
\<close>

definition valid_timestamp :: "timestamp \<Rightarrow> bool" where
  "valid_timestamp t \<longleftrightarrow>
     1 \<le> year t \<and> year t \<le> 9999 \<and> 1 \<le> month t \<and> month t \<le> 12 \<and> 1 \<le> day t \<and> day t \<le> 31"

definition coerce_date :: "(val list \<Rightarrow> val \<Rightarrow> timestamp option) \<Rightarrow> val list \<Rightarrow> val \<Rightarrow> val" where
  "coerce_date parse_date series v =
     (case parse_date series v of
        Some t \<Rightarrow> if valid_timestamp t then D t else NaN
      | None \<Rightarrow> NaN)"

definition to_datetime :: "(val list \<Rightarrow> val \<Rightarrow> timestamp option) \<Rightarrow> val list \<Rightarrow> val list" where
  "to_datetime parse_date series = map (coerce_date parse_date series) series"

definition coerce_num :: "(val \<Rightarrow> rat option) \<Rightarrow> val \<Rightarrow> val" where
  "coerce_num parse_num v = (case parse_num v of Some x \<Rightarrow> N x | None \<Rightarrow> NaN)"

definition to_numeric :: "(val \<Rightarrow> rat option) \<Rightarrow> val list \<Rightarrow> val list" where
  "to_numeric parse_num series = map (coerce_num parse_num) series"

subsection \<open>The steps of \<open>load_and_clean_data\<close>\<close>

definition convert_date :: "(val list \<Rightarrow> val \<Rightarrow> timestamp option) \<Rightarrow> frame \<Rightarrow> error + frame" where
  "convert_date parse_date df =
     (if ''date'' \<in> set (columns df)
      then Inr (assign ''date'' (to_datetime parse_date (col ''date'' df)) df)
      else Inl (SchemaError ''No 'date' column found in the dataset.''))"

definition numeric_conversions :: "(val \<Rightarrow> rat option) \<Rightarrow> frame \<Rightarrow> frame" where
  "numeric_conversions parse_num df =
     foldl (\<lambda>df c. if c \<in> set (columns df) then assign c (to_numeric parse_num (col c df)) df else df)
       df [''total_items'', ''total_cost'']"

definition create_quantity :: "frame \<Rightarrow> error + frame" where
  "create_quantity df =
     (if ''total_items'' \<in> set (columns df)
      then Inr (assign ''quantity'' (col ''total_items'' df) df)
      else Inl (SchemaError ''No 'total_items' column found to create quantity.''))"

definition create_revenue :: "frame \<Rightarrow> error + frame" where
  "create_revenue df =
     (if ''total_cost'' \<in> set (columns df)
      then Inr (assign ''revenue'' (col ''total_cost'' df) df)
      else Inl (SchemaError ''No 'total_cost' column found to create revenue.''))"

text \<open>\<open>df.dropna(subset=...)\<close>: a row stays when none of the listed cells is missing.\<close>

definition dropna :: "string list \<Rightarrow> frame \<Rightarrow> frame" where
  "dropna labels df = df\<lparr>rows := filter (\<lambda>r. list_all (\<lambda>c. r c \<noteq> NaN) labels) (rows df)\<rparr>"

text \<open>
  \<open>df["date"].dt.to_period("M").astype(str)\<close>: year and month of the timestamp, as
  \<open>YYYY-MM\<close> with leading zeros.
\<close>

definition digit :: "nat \<Rightarrow> char" where
  "digit n = ''0123456789'' ! (n mod 10)"

definition year_month_str :: "timestamp \<Rightarrow> string" where
  "year_month_str t =
     [digit (year t div 1000), digit (year t div 100), digit (year t div 10), digit (year t)]
     @ ''-'' @ [digit (month t div 10), digit (month t)]"

definition period_str :: "val \<Rightarrow> val" where
  "period_str v = (case v of D t \<Rightarrow> S (year_month_str t) | _ \<Rightarrow> S ''NaT'')"

definition add_year_month :: "frame \<Rightarrow> frame" where
  "add_year_month df = assign ''year_month'' (map period_str (col ''date'' df)) df"

definition load_and_clean_data ::
  "(val list \<Rightarrow> val \<Rightarrow> timestamp option) \<Rightarrow> (val \<Rightarrow> rat option) \<Rightarrow> raw_frame \<Rightarrow> error + frame" where
  "load_and_clean_data parse_date parse_num raw =
     (case convert_date parse_date (standardize_columns raw) of
        Inl e \<Rightarrow> Inl e
      | Inr df1 \<Rightarrow>
          (case create_quantity (numeric_conversions parse_num df1) of
             Inl e \<Rightarrow> Inl e
           | Inr df2 \<Rightarrow>
               (case create_revenue df2 of
                  Inl e \<Rightarrow> Inl e
                | Inr df3 \<Rightarrow>
                    Inr (add_year_month (dropna [''date'', ''quantity'', ''revenue''] df3)))))"

section \<open>KPI calculation\<close>

text \<open>
  \<open>Series.sum()\<close> and \<open>Series.mean()\<close> skip missing cells; the mean of no cells is
  \<open>NaN\<close>, here \<open>None\<close>.
\<close>

definition number_of :: "val \<Rightarrow> rat option" where
  "number_of v = (case v of N x \<Rightarrow> Some x | _ \<Rightarrow> None)"

definition series_sum :: "val list \<Rightarrow> rat" where
  "series_sum vs = sum_list (List.map_filter number_of vs)"

definition series_mean :: "val list \<Rightarrow> rat option" where
  "series_mean vs =
     (let xs = List.map_filter number_of vs
      in if xs = [] then None else Some (sum_list xs / of_nat (length xs)))"

definition total_revenue :: "frame \<Rightarrow> rat" where
  "total_revenue df = series_sum (col ''revenue'' df)"

definition total_transactions :: "frame \<Rightarrow> nat" where
  "total_transactions df = length (rows df)"

definition avg_order_value :: "frame \<Rightarrow> rat option" where
  "avg_order_value df = series_mean (col ''revenue'' df)"

definition total_items_sold :: "frame \<Rightarrow> rat" where
  "total_items_sold df = series_sum (col ''quantity'' df)"

text \<open>
  \<open>df.groupby(key)[c].sum()\<close>: one entry per distinct key that is not missing, in
  ascending key order, with the sum of \<open>c\<close> over the rows of that key. A key label that is
  not a column raises \<open>KeyError\<close>.
\<close>

definition group_keys :: "string \<Rightarrow> frame \<Rightarrow> val list" where
  "group_keys key df = sort (remdups (filter (\<lambda>k. k \<noteq> NaN) (col key df)))"

definition group_rows :: "string \<Rightarrow> val \<Rightarrow> frame \<Rightarrow> frame" where
  "group_rows key k df = df\<lparr>rows := filter (\<lambda>r. r key = k) (rows df)\<rparr>"

definition groupby_sum :: "string \<Rightarrow> string \<Rightarrow> frame \<Rightarrow> error + (val \<times> rat) list" where
  "groupby_sum key c df =
     (if key \<in> set (columns df)
      then Inr (map (\<lambda>k. (k, series_sum (col c (group_rows key k df)))) (group_keys key df))
      else Inl (KeyError key))"

text \<open>
  \<open>sort_values(ascending=False)\<close> runs with the default \<open>kind="quicksort"\<close>, which pandas
  documents as not stable. The sort is therefore a parameter \<open>sort_values\<close> of the model;
  all that is known of it is that it returns the entries of its argument in
  non-increasing order of value.
\<close>

definition sorts_descending :: "((val \<times> rat) list \<Rightarrow> (val \<times> rat) list) \<Rightarrow> bool" where
  "sorts_descending sort_values \<longleftrightarrow>
     (\<forall>xs. mset (sort_values xs) = mset xs \<and>
           sorted_wrt (\<lambda>a b. snd b \<le> snd a) (sort_values xs))"

text \<open>
  Two such sorts: one keeps entries of equal value in their order (reverse, sort
  stably in ascending order, reverse), the other reverses them.
\<close>

definition sort_values_stable :: "(val \<times> rat) list \<Rightarrow> (val \<times> rat) list" where
  "sort_values_stable xs = rev (sort_key snd (rev xs))"


definition revenue_by_product ::
  "((val \<times> rat) list \<Rightarrow> (val \<times> rat) list) \<Rightarrow> frame \<Rightarrow> error + (val \<times> rat) list" where
  "revenue_by_product sort_values df =
     (case groupby_sum ''product'' ''revenue'' df of
        Inl e \<Rightarrow> Inl e
      | Inr g \<Rightarrow> Inr (take 5 (sort_values g)))"

definition revenue_by_city ::
  "((val \<times> rat) list \<Rightarrow> (val \<times> rat) list) \<Rightarrow> frame \<Rightarrow> error + (val \<times> rat) list option" where
  "revenue_by_city sort_values df =
     (if ''city'' \<in> set (columns df)
      then (case groupby_sum ''city'' ''revenue'' df of
              Inl e \<Rightarrow> Inl e
            | Inr g \<Rightarrow> Inr (Some (take 5 (sort_values g))))
      else Inr None)"

definition sort_index :: "(val \<times> rat) list \<Rightarrow> (val \<times> rat) list" where
  "sort_index xs = sort_key fst xs"

definition revenue_by_month :: "frame \<Rightarrow> error + (val \<times> rat) list" where
  "revenue_by_month df =
     (case groupby_sum ''year_month'' ''revenue'' df of
        Inl e \<Rightarrow> Inl e
      | Inr g \<Rightarrow> Inr (sort_index g))"

section \<open>The city filter\<close>






section \<open>KPI summary text (\<open>build_kpi_summary_text\<close>)\<close>

text \<open>The values the formatter reads, computed from \<open>df_clean\<close> in the order of the script.\<close>

record kpi_summary =
  kpi_total_revenue :: rat
  kpi_total_transactions :: nat
  kpi_avg_order_value :: "rat option"
  kpi_total_items_sold :: rat
  kpi_revenue_by_product :: "(val \<times> rat) list"
  kpi_revenue_by_city :: "(val \<times> rat) list option"
  kpi_revenue_by_month :: "(val \<times> rat) list"

definition compute_kpis ::
  "((val \<times> rat) list \<Rightarrow> (val \<times> rat) list) \<Rightarrow> frame \<Rightarrow> error + kpi_summary" where
  "compute_kpis sort_values df_clean =
     (case revenue_by_product sort_values df_clean of
        Inl e \<Rightarrow> Inl e
      | Inr products \<Rightarrow>
          (case revenue_by_city sort_values df_clean of
             Inl e \<Rightarrow> Inl e
           | Inr cities \<Rightarrow>
               (case revenue_by_month df_clean of
                  Inl e \<Rightarrow> Inl e
                | Inr months \<Rightarrow>
                    Inr \<lparr>kpi_total_revenue = total_revenue df_clean,
                         kpi_total_transactions = total_transactions df_clean,
                         kpi_avg_order_value = avg_order_value df_clean,
                         kpi_total_items_sold = total_items_sold df_clean,
                         kpi_revenue_by_product = products,
                         kpi_revenue_by_city = cities,
                         kpi_revenue_by_month = months\<rparr>)))"

subsection \<open>Number formats\<close>

text \<open>The decimal digits of a natural number, as \<open>str\<close> of an \<open>int\<close> prints them.\<close>

fun digits :: "nat \<Rightarrow> string" where
  "digits n = (if n < 10 then [digit n] else digits (n div 10) @ [digit n])"

declare digits.simps [simp del]

text \<open>The \<open>,\<close> option of the format specification: a comma before every group of three digits.\<close>

function commas :: "string \<Rightarrow> string" where
  "commas ds =
     (if length ds \<le> 3 then ds
      else commas (take (length ds - 3) ds) @ '','' @ drop (length ds - 3) ds)"
  by pat_completeness auto
termination
  by (relation "measure length") auto

declare commas.simps [simp del]

text \<open>
  Fixed-point formats round to the nearest value with the asked number of decimals, a
  tie to the even neighbour. The sign is that of the value before rounding.
\<close>

definition round_half_even :: "rat \<Rightarrow> int" where
  "round_half_even x =
     (let f = \<lfloor>x\<rfloor>; d = x - of_int f
      in if d < 1 / 2 then f else if 1 / 2 < d then f + 1 else if even f then f else f + 1)"

definition sign_str :: "rat \<Rightarrow> string" where
  "sign_str x = (if x < 0 then ''-'' else [])"

text \<open>\<open>{x:,.2f}\<close> and \<open>{x:,.0f}\<close>; a \<open>NaN\<close> prints as \<open>nan\<close>.\<close>

definition format_2f :: "rat \<Rightarrow> string" where
  "format_2f x =
     (let n = nat \<bar>round_half_even (x * 100)\<bar>
      in sign_str x @ commas (digits (n div 100)) @ ''.'' @ [digit (n div 10), digit n])"

definition format_0f :: "rat \<Rightarrow> string" where
  "format_0f x = sign_str x @ commas (digits (nat \<bar>round_half_even x\<bar>))"

definition format_2f_nan :: "rat option \<Rightarrow> string" where
  "format_2f_nan x = (case x of None \<Rightarrow> ''nan'' | Some y \<Rightarrow> format_2f y)"

text \<open>
  \<open>{product}\<close>, \<open>{city}\<close>, \<open>{ym}\<close>: \<open>str\<close> of the group key. A string prints as it is; how
  a numeric key prints depends on its dtype and is the parameter \<open>repr\<close>.
\<close>

definition str_val :: "(rat \<Rightarrow> string) \<Rightarrow> val \<Rightarrow> string" where
  "str_val repr v =
     (case v of
        S s \<Rightarrow> s
      | N x \<Rightarrow> repr x
      | D t \<Rightarrow> year_month_str t @ ''-'' @ [digit (day t div 10), digit (day t)] @ '' 00:00:00''
      | NaN \<Rightarrow> ''nan'')"

subsection \<open>The report\<close>

definition newline :: char where
  "newline = CHR 0x0A"

fun join :: "string \<Rightarrow> string list \<Rightarrow> string" where
  "join sep [] = []"
| "join sep [x] = x"
| "join sep (x # y # ys) = x @ sep @ join sep (y # ys)"

definition entry_line :: "(rat \<Rightarrow> string) \<Rightarrow> val \<times> rat \<Rightarrow> string" where
  "entry_line repr e = ''- '' @ str_val repr (fst e) @ '': $'' @ format_2f (snd e)"

definition summary_lines :: "(rat \<Rightarrow> string) \<Rightarrow> kpi_summary \<Rightarrow> string list" where
  "summary_lines repr s =
     [''=== High-Level Sales Summary ==='',
      ''Total revenue: $'' @ format_2f (kpi_total_revenue s),
      ''Total transactions: '' @ digits (kpi_total_transactions s),
      ''Average order value: $'' @ format_2f_nan (kpi_avg_order_value s),
      ''Total items sold: '' @ format_0f (kpi_total_items_sold s),
      newline # ''=== Top 5 Products by Revenue ==='']
     @ map (entry_line repr) (kpi_revenue_by_product s)
     @ (case kpi_revenue_by_city s of
          None \<Rightarrow> []
        | Some cities \<Rightarrow>
            (newline # ''=== Top 5 Cities by Revenue ==='') # map (entry_line repr) cities)
     @ [newline # ''=== Monthly Revenue (chronological) ==='']
     @ map (entry_line repr) (kpi_revenue_by_month s)"

definition build_kpi_summary_text :: "(rat \<Rightarrow> string) \<Rightarrow> kpi_summary \<Rightarrow> string" where
  "build_kpi_summary_text repr s = join [newline] (summary_lines repr s)"

section \<open>Sample inputs\<close>

text \<open>
  Two parsers to run the model on concrete tables: dates written \<open>YYYY-MM-DD\<close>, and
  numbers that are numeric cells or strings of decimal digits.
\<close>

definition digit_value :: "char \<Rightarrow> nat option" where
  "digit_value c = map_of (zip ''0123456789'' [0, 1, 2, 3, 4, 5, 6, 7, 8, 9]) c"

fun decimal_from :: "nat \<Rightarrow> string \<Rightarrow> nat option" where
  "decimal_from acc [] = Some acc"
| "decimal_from acc (c # cs) =
     (case digit_value c of None \<Rightarrow> None | Some d \<Rightarrow> decimal_from (10 * acc + d) cs)"

definition decimal :: "string \<Rightarrow> nat option" where
  "decimal s = (if s = [] then None else decimal_from 0 s)"

definition iso_date :: "val list \<Rightarrow> val \<Rightarrow> timestamp option" where
  "iso_date series v =
     (case v of
        S s \<Rightarrow>
          if length s = 10 \<and> s ! 4 = CHR ''-'' \<and> s ! 7 = CHR ''-''
          then (case (decimal (take 4 s), decimal (take 2 (drop 5 s)), decimal (drop 8 s)) of
                  (Some y, Some m, Some d) \<Rightarrow> Some (Timestamp y m d)
                | _ \<Rightarrow> None)
          else None
      | _ \<Rightarrow> None)"

definition plain_number :: "val \<Rightarrow> rat option" where
  "plain_number v =
     (case v of N x \<Rightarrow> Some x | S s \<Rightarrow> map_option of_nat (decimal s) | _ \<Rightarrow> None)"

text \<open>The cells of a table, row by row in column order.\<close>

definition cells :: "frame \<Rightarrow> val list list" where
  "cells df = map (\<lambda>r. map r (columns df)) (rows df)"


text \<open>
  A table with untidy column names and three rows that do not parse (a date, an item
  count, a cost), and a table whose item and cost columns carry other names.
\<close>

definition messy_raw :: raw_frame where
  "messy_raw =
     \<lparr>header = ['' Date '', ''TOTAL ITEMS'', ''Total Cost'', ''Product''],
      records = [[S ''2024-01-15'', N 3, N 30, S ''A''],
                 [S ''not a date'', N 1, N 10, S ''A''],
                 [S ''2024-02-01'', S ''many'', N 5, S ''B''],
                 [S ''2024-02-02'', N 4, NaN, S ''B'']]\<rparr>"




definition no_product_raw :: raw_frame where
  "no_product_raw =
     \<lparr>header = [''date'', ''total_items'', ''total_cost'', ''city''],
      records = [[S ''2024-01-15'', N 3, N 30, S ''X'']]\<rparr>"


text \<open>A table whose only row has a date that does not parse.\<close>

definition unparsable_raw :: raw_frame where
  "unparsable_raw =
     \<lparr>header = [''date'', ''total_items'', ''total_cost'', ''product'', ''city''],
      records = [[S ''n/a'', N 3, N 30, S ''A'', S ''X'']]\<rparr>"

text \<open>
  The table that \<open>load_and_clean_data\<close> returns with the two sample parsers (the empty
  table where it stops with an error).
\<close>

definition loaded :: "raw_frame \<Rightarrow> frame" where
  "loaded raw =
     (case load_and_clean_data iso_date plain_number raw of
        Inr df \<Rightarrow> df
      | Inl e \<Rightarrow> \<lparr>columns = [], rows = []\<rparr>)"

text \<open>
  Two KPI summaries: that of 1234 transactions of two items for 1000.50 each (one
  product, one month, no city column), and that of a table without rows.
\<close>

definition busy_summary :: kpi_summary where
  "busy_summary =
     \<lparr>kpi_total_revenue = 1234617,
      kpi_total_transactions = 1234,
      kpi_avg_order_value = Some (2001 / 2),
      kpi_total_items_sold = 2468,
      kpi_revenue_by_product = [(S ''A'', 1234617)],
      kpi_revenue_by_city = None,
      kpi_revenue_by_month = [(S ''2024-01'', 1234617)]\<rparr>"

definition quiet_summary :: kpi_summary where
  "quiet_summary =
     \<lparr>kpi_total_revenue = 0,
      kpi_total_transactions = 0,
      kpi_avg_order_value = None,
      kpi_total_items_sold = 0,
      kpi_revenue_by_product = [],
      kpi_revenue_by_city = Some [],
      kpi_revenue_by_month = []\<rparr>"

section \<open>Vocabulary of the properties\<close>


text \<open>
  A row counts as parsed when its date, its item count and its cost all coerce to a
  value; \<open>transaction\<close> is the row that \<open>load_and_clean_data\<close> makes of it.
\<close>

definition parsed :: "(val list \<Rightarrow> val \<Rightarrow> timestamp option) \<Rightarrow> (val \<Rightarrow> rat option) \<Rightarrow> val list \<Rightarrow> (string \<Rightarrow> val) \<Rightarrow> bool" where
  "parsed parse_date parse_num series r \<longleftrightarrow>
     coerce_date parse_date series (r ''date'') \<noteq> NaN \<and>
     coerce_num parse_num (r ''total_items'') \<noteq> NaN \<and>
     coerce_num parse_num (r ''total_cost'') \<noteq> NaN"

definition transaction :: "(val list \<Rightarrow> val \<Rightarrow> timestamp option) \<Rightarrow> (val \<Rightarrow> rat option) \<Rightarrow> val list \<Rightarrow> (string \<Rightarrow> val) \<Rightarrow> string \<Rightarrow> val" where
  "transaction parse_date parse_num series r =
     r(''date'' := coerce_date parse_date series (r ''date''),
       ''total_items'' := coerce_num parse_num (r ''total_items''),
       ''total_cost'' := coerce_num parse_num (r ''total_cost''),
       ''quantity'' := coerce_num parse_num (r ''total_items''),
       ''revenue'' := coerce_num parse_num (r ''total_cost''),
       ''year_month'' := period_str (coerce_date parse_date series (r ''date'')))"

text \<open>The labels after \<open>df[c] = ...\<close>.\<close>

definition with_label :: "string \<Rightarrow> string list \<Rightarrow> string list" where
  "with_label c cs = (if c \<in> set cs then cs else cs @ [c])"






text \<open>Strings of the form \<open>YYYY-MM\<close>.\<close>

definition is_digit :: "char \<Rightarrow> bool" where
  "is_digit c \<longleftrightarrow> c \<in> set ''0123456789''"


text \<open>
  A rendered amount has exactly two decimals when it ends in a point and two digits
  and has no other point. A rendered count has thousands separators when, read from
  the right, it is groups of three digits, each but the last followed by a comma, and
  a last group of one to three digits.
\<close>

definition two_decimals :: "string \<Rightarrow> bool" where
  "two_decimals t \<longleftrightarrow>
     (case rev t of
        d2 # d1 # p # body \<Rightarrow>
          is_digit d2 \<and> is_digit d1 \<and> p = CHR ''.'' \<and> CHR ''.'' \<notin> set body
      | _ \<Rightarrow> False)"

fun grouped_rev :: "string \<Rightarrow> bool" where
  "grouped_rev (a # b # c # d # rest) =
     (is_digit a \<and> is_digit b \<and> is_digit c \<and> d = CHR '','' \<and> grouped_rev rest)"
| "grouped_rev [] = False"
| "grouped_rev ds = list_all is_digit ds"

definition thousands_separated :: "string \<Rightarrow> bool" where
  "thousands_separated t \<longleftrightarrow> grouped_rev (rev t)"

text \<open>The (key, value) entries of a summary, in the order of the report.\<close>

definition entries :: "kpi_summary \<Rightarrow> (val \<times> rat) list" where
  "entries s =
     kpi_revenue_by_product s
     @ (case kpi_revenue_by_city s of None \<Rightarrow> [] | Some cities \<Rightarrow> cities)
     @ kpi_revenue_by_month s"

section \<open>Column names are canonical after one pass\<close>


















section \<open>What \<open>load_and_clean_data\<close> returns\<close>

lemma zip_map_same: "zip xs (map f xs) = map (\<lambda>x. (x, f x)) xs"
  by (induction xs) auto

lemma rows_assign_map:
  "rows (assign c (map f (rows df)) df) = map (\<lambda>r. r(c := f r)) (rows df)"
  by (simp add: assign_def zip_map_same comp_def)

lemma rows_assign_col:
  "rows (assign c (map g (col c' df)) df) = map (\<lambda>r. r(c := g (r c'))) (rows df)"
  using rows_assign_map [of c "\<lambda>r. g (r c')" df] by (simp add: col_def comp_def)

lemma rows_assign_col_id:
  "rows (assign c (col c' df) df) = map (\<lambda>r. r(c := r c')) (rows df)"
  using rows_assign_col [of c "\<lambda>v. v" c' df] by simp

lemma columns_assign:
  "columns (assign c vs df) = (if c \<in> set (columns df) then columns df else columns df @ [c])"
  by (simp add: assign_def)

lemma set_columns_assign: "set (columns (assign c vs df)) = insert c (set (columns df))"
  by (auto simp: assign_def)

lemma columns_numeric_conversions: "columns (numeric_conversions pn df) = columns df"
  by (simp add: numeric_conversions_def columns_assign)

lemma rows_numeric_conversions:
  "''total_items'' \<in> set (columns df) \<Longrightarrow> ''total_cost'' \<in> set (columns df) \<Longrightarrow>
   rows (numeric_conversions pn df) =
     map (\<lambda>r. r(''total_items'' := coerce_num pn (r ''total_items''),
                ''total_cost'' := coerce_num pn (r ''total_cost''))) (rows df)"
  by (simp add: numeric_conversions_def columns_assign to_numeric_def rows_assign_col comp_def)

lemma columns_assign_label: "columns (assign c vs df) = with_label c (columns df)"
  by (simp add: assign_def with_label_def)




lemma load_ok:
  assumes "''date'' \<in> set (map canonical (header raw))"
    and "''total_items'' \<in> set (map canonical (header raw))"
    and "''total_cost'' \<in> set (map canonical (header raw))"
  shows "load_and_clean_data pd pn raw =
     Inr \<lparr>columns = with_label ''year_month'' (with_label ''revenue'' (with_label ''quantity''
              (map canonical (header raw)))),
          rows = map (transaction pd pn (col ''date'' (standardize_columns raw)))
                   (filter (parsed pd pn (col ''date'' (standardize_columns raw)))
                      (rows (standardize_columns raw)))\<rparr>"
proof -
  let ?df0 = "standardize_columns raw"
  let ?s = "col ''date'' ?df0"
  have c0: "columns ?df0 = map canonical (header raw)"
    by (simp add: standardize_columns_def Let_def)
  let ?df1 = "assign ''date'' (to_datetime pd ?s) ?df0"
  have 1: "convert_date pd ?df0 = Inr ?df1"
    using assms(1) by (simp add: convert_date_def c0)
  have c1: "columns ?df1 = columns ?df0"
    using assms(1) by (simp add: columns_assign c0)
  have r1: "rows ?df1 = map (\<lambda>r. r(''date'' := coerce_date pd ?s (r ''date''))) (rows ?df0)"
    unfolding to_datetime_def by (rule rows_assign_col)
  let ?df2 = "numeric_conversions pn ?df1"
  have c2: "columns ?df2 = columns ?df0"
    by (simp add: columns_numeric_conversions c1)
  have r2: "rows ?df2 = map (\<lambda>r. r(''date'' := coerce_date pd ?s (r ''date''),
                ''total_items'' := coerce_num pn (r ''total_items''),
                ''total_cost'' := coerce_num pn (r ''total_cost''))) (rows ?df0)"
    using assms by (simp add: rows_numeric_conversions c1 c0 r1 comp_def)
  let ?df3 = "assign ''quantity'' (col ''total_items'' ?df2) ?df2"
  have 3: "create_quantity ?df2 = Inr ?df3"
    using assms(2) by (simp add: create_quantity_def c2 c0)
  have c3: "columns ?df3 = with_label ''quantity'' (columns ?df0)"
    by (simp only: columns_assign_label c2)
  have r3: "rows ?df3 = map (\<lambda>r. r(''date'' := coerce_date pd ?s (r ''date''),
                ''total_items'' := coerce_num pn (r ''total_items''),
                ''total_cost'' := coerce_num pn (r ''total_cost''),
                ''quantity'' := coerce_num pn (r ''total_items''))) (rows ?df0)"
    by (simp add: rows_assign_col_id r2 comp_def)
  let ?df4 = "assign ''revenue'' (col ''total_cost'' ?df3) ?df3"
  have 4: "create_revenue ?df3 = Inr ?df4"
    using assms(3) by (simp add: create_revenue_def c3 c0 with_label_def)
  have c4: "columns ?df4 = with_label ''revenue'' (with_label ''quantity'' (columns ?df0))"
    by (simp only: columns_assign_label c2)
  have r4: "rows ?df4 = map (\<lambda>r. r(''date'' := coerce_date pd ?s (r ''date''),
                ''total_items'' := coerce_num pn (r ''total_items''),
                ''total_cost'' := coerce_num pn (r ''total_cost''),
                ''quantity'' := coerce_num pn (r ''total_items''),
                ''revenue'' := coerce_num pn (r ''total_cost''))) (rows ?df0)"
    by (subst rows_assign_col_id) (simp add: r3 comp_def)
  let ?df5 = "dropna [''date'', ''quantity'', ''revenue''] ?df4"
  have c5: "columns ?df5 = columns ?df4"
    by (simp add: dropna_def)
  have r5: "rows ?df5 = map (\<lambda>r. r(''date'' := coerce_date pd ?s (r ''date''),
                ''total_items'' := coerce_num pn (r ''total_items''),
                ''total_cost'' := coerce_num pn (r ''total_cost''),
                ''quantity'' := coerce_num pn (r ''total_items''),
                ''revenue'' := coerce_num pn (r ''total_cost'')))
              (filter (parsed pd pn ?s) (rows ?df0))"
    by (simp add: dropna_def r4 filter_map comp_def parsed_def [abs_def])
  let ?df6 = "add_year_month ?df5"
  have c6: "columns ?df6 = with_label ''year_month'' (columns ?df4)"
    by (simp only: add_year_month_def columns_assign_label c5)
  have r6: "rows ?df6 = map (transaction pd pn ?s) (filter (parsed pd pn ?s) (rows ?df0))"
    unfolding add_year_month_def
    by (simp add: rows_assign_col r5 comp_def transaction_def [abs_def])
  have "load_and_clean_data pd pn raw = Inr ?df6"
    by (simp add: load_and_clean_data_def 1 3 4)
  moreover have "?df6 = \<lparr>columns = columns ?df6, rows = rows ?df6\<rparr>"
    by simp
  ultimately show ?thesis
    by (simp only: c6 c4 c0 r6)
qed










section \<open>Sums, groups and sorts\<close>








lemma groupby_sum_missing:
  "key \<notin> set (columns df) \<Longrightarrow> groupby_sum key c df = Inl (KeyError key)"
  by (simp add: groupby_sum_def)








lemma sorts_descending_length: "sorts_descending srt \<Longrightarrow> length (srt xs) = length xs"
  unfolding sorts_descending_def by (metis size_mset)


section \<open>Normalized tables\<close>








lemma loaded_eq: "load_and_clean_data iso_date plain_number raw = Inr df \<Longrightarrow> loaded raw = df"
  by (simp add: loaded_def)
















section \<open>Period keys\<close>

lemma is_digit_digit: "is_digit (digit n)"
proof -
  have "n mod 10 < length ''0123456789''" by simp
  then have "''0123456789'' ! (n mod 10) \<in> set ''0123456789''" by (rule nth_mem)
  then show ?thesis by (simp only: is_digit_def digit_def)
qed










section \<open>Top products and top cities\<close>

lemma load_loaded:
  assumes "''date'' \<in> set (map canonical (header raw))"
    and "''total_items'' \<in> set (map canonical (header raw))"
    and "''total_cost'' \<in> set (map canonical (header raw))"
  shows "load_and_clean_data iso_date plain_number raw = Inr (loaded raw)"
  using load_ok [OF assms, of iso_date plain_number] by (simp add: loaded_def)


lemma no_product_labels:
  "map canonical (header no_product_raw) = [''date'', ''total_items'', ''total_cost'', ''city'']"
  by (simp add: no_product_raw_def canonical_def strip_def lower_def replace_spaces_def
      lower_char_def is_space_def)




text \<open>
  C1 fails on the product side. A table without a product column loads, and
  \<open>groupby("product")\<close> then raises \<open>KeyError\<close>: the script has no guard like the one it
  has for the city column, which does leave \<open>revenue_by_city\<close> out (\<open>None\<close>).
\<close>

theorem missing_product_column_raises_key_error:
  "load_and_clean_data iso_date plain_number no_product_raw = Inr (loaded no_product_raw) \<and>
   ''product'' \<notin> set (columns (loaded no_product_raw)) \<and>
   revenue_by_product sort_values_stable (loaded no_product_raw) = Inl (KeyError ''product'') \<and>
   compute_kpis sort_values_stable (loaded no_product_raw) = Inl (KeyError ''product'') \<and>
   ''city'' \<notin> set (columns (loaded messy_raw)) \<and>
   revenue_by_city sort_values_stable (loaded messy_raw) = Inr None"
proof -
  have l: "load_and_clean_data iso_date plain_number no_product_raw = Inr (loaded no_product_raw)"
    by (rule load_loaded) (simp_all add: no_product_labels)
  have p: "''product'' \<notin> set (columns (loaded no_product_raw))"
    unfolding loaded_def by code_simp
  have c: "''city'' \<notin> set (columns (loaded messy_raw))"
    unfolding loaded_def by code_simp
  from p have r: "revenue_by_product sort_values_stable (loaded no_product_raw) = Inl (KeyError ''product'')"
    by (simp add: revenue_by_product_def groupby_sum_missing)
  from r have k: "compute_kpis sort_values_stable (loaded no_product_raw) = Inl (KeyError ''product'')"
    by (simp add: compute_kpis_def)
  from c have n: "revenue_by_city sort_values_stable (loaded messy_raw) = Inr None"
    by (simp add: revenue_by_city_def)
  show ?thesis using l p r k c n by simp
qed

section \<open>Revenue by month\<close>







section \<open>The city filter recomputes two charts\<close>





section \<open>The summary text\<close>

lemma digits_are_digits: "digits n \<noteq> [] \<and> list_all is_digit (digits n)"
proof (induction n rule: digits.induct)
  case (1 n)
  show ?case
  proof (cases "n < 10")
    case True
    then show ?thesis by (simp add: digits.simps [of n] is_digit_digit)
  next
    case False
    with 1 show ?thesis by (simp add: digits.simps [of n] is_digit_digit)
  qed
qed

lemma grouped_rev_short:
  "xs \<noteq> [] \<Longrightarrow> length xs \<le> 3 \<Longrightarrow> grouped_rev xs = list_all is_digit xs"
  by (cases xs rule: grouped_rev.cases) simp_all

lemma grouped_rev_group:
  assumes "length xs = 3" "list_all is_digit xs"
  shows "grouped_rev (xs @ CHR '','' # rest) = grouped_rev rest"
proof -
  from assms(1) obtain a b c where "xs = [a, b, c]"
    by (metis (no_types, lifting) length_0_conv length_Suc_conv numeral_3_eq_3)
  with assms(2) show ?thesis by simp
qed

lemma thousands_separated_commas:
  "ds \<noteq> [] \<Longrightarrow> list_all is_digit ds \<Longrightarrow> thousands_separated (commas ds)"
proof (induction ds rule: commas.induct)
  case (1 ds)
  show ?case
  proof (cases "length ds \<le> 3")
    case True
    with "1.prems" show ?thesis
      by (simp add: commas.simps [of ds] thousands_separated_def grouped_rev_short list_all_iff)
  next
    case False
    let ?k = "length ds - 3"
    from False have t: "take ?k ds \<noteq> []" by auto
    from "1.prems" have td: "list_all is_digit (take ?k ds)"
      by (auto simp: list_all_iff dest: in_set_takeD)
    from "1.IH" [OF False t td] have ih: "grouped_rev (rev (commas (take ?k ds)))"
      by (simp add: thousands_separated_def)
    from False have l: "length (rev (drop ?k ds)) = 3" by simp
    from "1.prems" have d: "list_all is_digit (rev (drop ?k ds))"
      by (auto simp: list_all_iff dest: in_set_dropD)
    have "rev (commas ds) = rev (drop ?k ds) @ CHR '','' # rev (commas (take ?k ds))"
      using False by (simp add: commas.simps [of ds])
    then show ?thesis
      by (simp only: thousands_separated_def grouped_rev_group [OF l d] ih)
  qed
qed

lemma set_commas: "set (commas ds) \<subseteq> insert CHR '','' (set ds)"
proof (induction ds rule: commas.induct)
  case (1 ds)
  show ?case
  proof (cases "length ds \<le> 3")
    case True
    then show ?thesis by (simp add: commas.simps [of ds] subset_insertI)
  next
    case False
    from "1.IH" [OF False] set_take_subset [of "length ds - 3" ds]
    have "set (commas (take (length ds - 3) ds)) \<subseteq> insert CHR '','' (set ds)"
      by blast
    moreover have "set (drop (length ds - 3) ds) \<subseteq> set ds"
      by (rule set_drop_subset)
    ultimately show ?thesis
      using False by (auto simp: commas.simps [of ds])
  qed
qed

lemma not_digit_point: "\<not> is_digit CHR ''.''"
  by (simp add: is_digit_def)

lemma no_point_in_integer_part: "CHR ''.'' \<notin> set (sign_str x @ commas (digits n))"
proof -
  have "CHR ''.'' \<notin> set (digits n)"
    using digits_are_digits [of n] not_digit_point by (auto simp: list_all_iff)
  then have "CHR ''.'' \<notin> set (commas (digits n))"
    using set_commas [of "digits n"] by auto
  then show ?thesis by (simp add: sign_str_def)
qed

lemma two_decimals_format_2f: "two_decimals (format_2f x)"
  using no_point_in_integer_part [of x]
  by (simp add: two_decimals_def format_2f_def Let_def is_digit_digit)

lemma thousands_separated_format_0f:
  "\<exists>body. format_0f x = sign_str x @ body \<and> thousands_separated body"
  using digits_are_digits thousands_separated_commas by (auto simp: format_0f_def)

lemma thousands_separated_format_2f:
  "\<exists>body cents. format_2f x = sign_str x @ body @ ''.'' @ cents \<and> thousands_separated body"
  using digits_are_digits thousands_separated_commas by (auto simp: format_2f_def Let_def)

lemma entry_lines_in_summary:
  "e \<in> set (entries s) \<Longrightarrow> entry_line repr e \<in> set (summary_lines repr s)"
  by (auto simp: entries_def summary_lines_def split: option.splits)

lemma format_2f_total: "format_2f 1234617 = ''1,234,617.00''"
  by (simp add: format_2f_def round_half_even_def sign_str_def digits.simps commas.simps
      digit_def Let_def)

lemma format_2f_average: "format_2f (2001 / 2) = ''1,000.50''"
  by (simp add: format_2f_def round_half_even_def sign_str_def digits.simps commas.simps
      digit_def Let_def)

lemma format_0f_items: "format_0f 2468 = ''2,468''"
  by (simp add: format_0f_def round_half_even_def sign_str_def digits.simps commas.simps
      digit_def Let_def)

lemma digits_count: "digits 1234 = ''1234''"
  by (simp add: digits.simps digit_def)

lemma busy_summary_lines:
  "summary_lines (\<lambda>x. []) busy_summary =
     [''=== High-Level Sales Summary ==='',
      ''Total revenue: $1,234,617.00'',
      ''Total transactions: 1234'',
      ''Average order value: $1,000.50'',
      ''Total items sold: 2,468'',
      newline # ''=== Top 5 Products by Revenue ==='',
      ''- A: $1,234,617.00'',
      newline # ''=== Monthly Revenue (chronological) ==='',
      ''- 2024-01: $1,234,617.00'']"
  by (simp add: summary_lines_def busy_summary_def entry_line_def str_val_def format_2f_nan_def
      format_2f_total format_2f_average format_0f_items digits_count)

text \<open>
  C9, as the code has it. The text is a function of the KPI summary alone. Total
  revenue, a defined average order value and the value of every product, city and
  month entry are rendered by \<open>format_2f\<close>, which always ends in a point and two
  digits; an undefined average order value is rendered as \<open>nan\<close>. Total items sold is
  rendered by \<open>format_0f\<close>: a sign and digits with thousands separators.
\<close>

theorem summary_text_renders_amounts:
  "(s = s' \<longrightarrow> build_kpi_summary_text repr s = build_kpi_summary_text repr s') \<and>
   build_kpi_summary_text repr s = join [newline] (summary_lines repr s) \<and>
   ''Total revenue: $'' @ format_2f (kpi_total_revenue s) \<in> set (summary_lines repr s) \<and>
   two_decimals (format_2f (kpi_total_revenue s)) \<and>
   ''Average order value: $'' @ format_2f_nan (kpi_avg_order_value s) \<in> set (summary_lines repr s) \<and>
   (\<forall>a. kpi_avg_order_value s = Some a \<longrightarrow>
      format_2f_nan (kpi_avg_order_value s) = format_2f a \<and> two_decimals (format_2f a)) \<and>
   (kpi_avg_order_value s = None \<longrightarrow> format_2f_nan (kpi_avg_order_value s) = ''nan'') \<and>
   ''Total items sold: '' @ format_0f (kpi_total_items_sold s) \<in> set (summary_lines repr s) \<and>
   (\<exists>body. format_0f (kpi_total_items_sold s) = sign_str (kpi_total_items_sold s) @ body \<and>
      thousands_separated body) \<and>
   (\<forall>e \<in> set (entries s).
      ''- '' @ str_val repr (fst e) @ '': $'' @ format_2f (snd e) \<in> set (summary_lines repr s) \<and>
      two_decimals (format_2f (snd e)))"
proof -
  have 1: "''Total revenue: $'' @ format_2f (kpi_total_revenue s) \<in> set (summary_lines repr s)"
    by (simp add: summary_lines_def)
  have 2: "''Average order value: $'' @ format_2f_nan (kpi_avg_order_value s) \<in> set (summary_lines repr s)"
    by (simp add: summary_lines_def)
  have 3: "''Total items sold: '' @ format_0f (kpi_total_items_sold s) \<in> set (summary_lines repr s)"
    by (simp add: summary_lines_def)
  have 4: "\<forall>e \<in> set (entries s).
      ''- '' @ str_val repr (fst e) @ '': $'' @ format_2f (snd e) \<in> set (summary_lines repr s) \<and>
      two_decimals (format_2f (snd e))"
    using entry_lines_in_summary [of _ s repr]
    by (simp add: entry_line_def two_decimals_format_2f)
  have 5: "\<forall>a. kpi_avg_order_value s = Some a \<longrightarrow>
      format_2f_nan (kpi_avg_order_value s) = format_2f a \<and> two_decimals (format_2f a)"
    by (simp add: format_2f_nan_def two_decimals_format_2f)
  have 6: "kpi_avg_order_value s = None \<longrightarrow> format_2f_nan (kpi_avg_order_value s) = ''nan''"
    by (simp add: format_2f_nan_def)
  have 7: "s = s' \<longrightarrow> build_kpi_summary_text repr s = build_kpi_summary_text repr s'"
    by simp
  have 8: "build_kpi_summary_text repr s = join [newline] (summary_lines repr s)"
    by (simp add: build_kpi_summary_text_def)
  have 9: "two_decimals (format_2f (kpi_total_revenue s))"
    by (rule two_decimals_format_2f)
  have 10: "\<exists>body. format_0f (kpi_total_items_sold s) = sign_str (kpi_total_items_sold s) @ body \<and>
      thousands_separated body"
    by (rule thousands_separated_format_0f)
  show ?thesis
    by (intro conjI; fact)
qed

theorem summary_text_renders_amounts_witness:
  "kpi_avg_order_value busy_summary = Some (2001 / 2) \<and>
   (S ''A'', 1234617) \<in> set (entries busy_summary) \<and>
   summary_lines (\<lambda>x. []) busy_summary =
     [''=== High-Level Sales Summary ==='',
      ''Total revenue: $1,234,617.00'',
      ''Total transactions: 1234'',
      ''Average order value: $1,000.50'',
      ''Total items sold: 2,468'',
      newline # ''=== Top 5 Products by Revenue ==='',
      ''- A: $1,234,617.00'',
      newline # ''=== Monthly Revenue (chronological) ==='',
      ''- 2024-01: $1,234,617.00''] \<and>
   two_decimals (format_2f (2001 / 2)) \<and>
   ''- A: $'' @ format_2f 1234617 \<in> set (summary_lines (\<lambda>x. []) busy_summary) \<and>
   build_kpi_summary_text (\<lambda>x. []) busy_summary =
     join [newline] (summary_lines (\<lambda>x. []) busy_summary)"
proof -
  have a: "kpi_avg_order_value busy_summary = Some (2001 / 2)"
    by (simp add: busy_summary_def)
  have e: "(S ''A'', 1234617) \<in> set (entries busy_summary)"
    by (simp add: busy_summary_def entries_def)
  note l = busy_summary_lines
  from summary_text_renders_amounts [of busy_summary busy_summary "\<lambda>x. []"] a
  have t: "two_decimals (format_2f (2001 / 2))"
    and b: "build_kpi_summary_text (\<lambda>x. []) busy_summary =
       join [newline] (summary_lines (\<lambda>x. []) busy_summary)"
    and en: "\<forall>e \<in> set (entries busy_summary).
      ''- '' @ str_val (\<lambda>x. []) (fst e) @ '': $'' @ format_2f (snd e)
        \<in> set (summary_lines (\<lambda>x. []) busy_summary) \<and>
      two_decimals (format_2f (snd e))"
    by blast+
  from en e have "''- '' @ str_val (\<lambda>x. []) (S ''A'') @ '': $'' @ format_2f 1234617
        \<in> set (summary_lines (\<lambda>x. []) busy_summary)"
    by fastforce
  then have m: "''- A: $'' @ format_2f 1234617 \<in> set (summary_lines (\<lambda>x. []) busy_summary)"
    by (simp add: str_val_def)
  show ?thesis by (intro conjI; fact)
qed

text \<open>
  The claim C9 as stated has every count with thousands separators and every currency
  value with two decimals. The count of transactions is printed plainly: 1234
  transactions give \<open>Total transactions: 1234\<close>. The summary of a table without rows has
  no average, which prints as \<open>$nan\<close>.
\<close>

theorem summary_text_count_and_nan_rendering:
  "summary_lines (\<lambda>x. []) busy_summary ! 2 = ''Total transactions: 1234'' \<and>
   \<not> thousands_separated ''1234'' \<and>
   thousands_separated ''1,234'' \<and>
   compute_kpis sort_values_stable (loaded unparsable_raw) = Inr quiet_summary \<and>
   summary_lines (\<lambda>x. []) quiet_summary ! 3 = ''Average order value: $nan'' \<and>
   \<not> two_decimals ''nan''"
proof -
  have 1: "summary_lines (\<lambda>x. []) busy_summary ! 2 = ''Total transactions: 1234''"
    by (simp add: busy_summary_lines)
  have 2: "\<not> thousands_separated ''1234''"
    by (simp add: thousands_separated_def is_digit_def)
  have 3: "thousands_separated ''1,234''"
    by (simp add: thousands_separated_def is_digit_def)
  have 4: "compute_kpis sort_values_stable (loaded unparsable_raw) = Inr quiet_summary"
    unfolding loaded_def by code_simp
  have 5: "summary_lines (\<lambda>x. []) quiet_summary ! 3 = ''Average order value: $nan''"
    by (simp add: summary_lines_def quiet_summary_def format_2f_nan_def)
  have 6: "\<not> two_decimals ''nan''"
    by (simp add: two_decimals_def is_digit_def)
  show ?thesis by (intro conjI; fact)
qed

end
